theory Spec2Isabelle
  imports Main "HOL-Library.Sublist"
begin

section \<open>Attestation trust policy (pkg/cmd/attestation/verify/policy.go)\<close>

text \<open>
  A shallow embedding of the policy builder and the certificate-extension evaluator of
  \<^verbatim>\<open>policy.go\<close>. Go strings are byte sequences and are modelled as \<open>string\<close>
  (a list of 8-bit characters); \<^verbatim>\<open>fmt.Sprintf\<close> with \<^verbatim>\<open>%s\<close> verbs is list
  concatenation. A Go \<^verbatim>\<open>error\<close> result is an \<open>error option\<close> (\<open>None\<close> is
  \<^verbatim>\<open>nil\<close>); a \<^verbatim>\<open>(T, error)\<close> result is \<open>error + T\<close>.
\<close>

subsection \<open>Errors\<close>

text \<open>
  \<open>Error msg\<close> is an error value made by \<^verbatim>\<open>errors.New\<close> or \<^verbatim>\<open>fmt.Errorf\<close>
  with the message \<open>msg\<close>. \<open>ErrNoAttestationsVerified\<close> is the package-level sentinel
  \<^verbatim>\<open>verification.ErrNoAttestationsVerified\<close>, whose declaration is outside this file:
  it is a value of its own, whatever its message is.
\<close>

datatype error = Error string | ErrNoAttestationsVerified

subsection \<open>Library functions of package strings\<close>

text \<open>
  \<^verbatim>\<open>strings.EqualFold(s, t)\<close>. The library function walks both strings byte by byte
  as long as both bytes are ASCII (below \<^verbatim>\<open>utf8.RuneSelf = 0x80\<close>): equal bytes
  continue, and so do two bytes of which the smaller is an upper-case letter and the
  larger is that letter plus \<^verbatim>\<open>'a' - 'A'\<close>; anything else returns false. When one
  string ends, the result is whether both have ended. At the first position where
  either byte is not ASCII (\<^verbatim>\<open>sr|tr >= utf8.RuneSelf\<close>) the function jumps to its
  rune loop on the two remaining suffixes, which decodes UTF-8 and compares runes along
  the orbits of \<^verbatim>\<open>unicode.SimpleFold\<close>. That loop and its Unicode tables are not
  modelled: the parameter \<open>uni\<close> stands for the rune loop, as a function of the two
  suffixes. Every theorem below holds for every \<open>uni\<close>.
\<close>

fun EqualFold :: "(string \<Rightarrow> string \<Rightarrow> bool) \<Rightarrow> string \<Rightarrow> string \<Rightarrow> bool" where
  "EqualFold uni (sr # s) (tr # t) =
     (if 128 \<le> (of_char sr :: nat) \<or> 128 \<le> (of_char tr :: nat) then uni (sr # s) (tr # t)
      else if tr = sr then EqualFold uni s t
      else
        (let lo = min (of_char sr :: nat) (of_char tr);
             hi = max (of_char sr :: nat) (of_char tr)
         in if 65 \<le> lo \<and> lo \<le> 90 \<and> hi = lo + 97 - 65 then EqualFold uni s t
            else False))"
| "EqualFold uni s t = (length s = length t)"

text \<open>
  \<^verbatim>\<open>strings.Index(s, substr)\<close>: the index of the first instance of \<open>substr\<close> in
  \<open>s\<close>, or \<open>-1\<close> if there is none.
\<close>

fun Index :: "string \<Rightarrow> string \<Rightarrow> int" where
  "Index [] substr = (if substr = [] then 0 else -1)"
| "Index (c # s) substr =
     (if prefix substr (c # s) then 0
      else (let i = Index s substr in if i < 0 then -1 else i + 1))"

subsection \<open>Data model\<close>

record Extensions =
  RunnerEnvironment :: string
  SANRegex :: string
  SAN :: string
  BuildSourceRepoURI :: string
  SignerWorkflow :: string
  SourceRepositoryOwnerURI :: string
  SourceRepositoryURI :: string

text \<open>
  The artifact is opaque to this file (\<^verbatim>\<open>artifact.DigestedArtifact\<close>): a type
  parameter.
\<close>

record 'a Policy =
  Extensions :: Extensions
  PredicateType :: string
  Artifact :: 'a
  OIDCIssuer :: string

text \<open>
  Modelled from the spec: the type \<^verbatim>\<open>Options\<close> is declared in another file of the
  package. The spec lists its fields: an options bundle with fields SignerRepo,
  SignerWorkflow, SAN, SANRegex, DenySelfHostedRunner (boolean), Repo, Tenant, Owner,
  Hostname, OIDCIssuer. The fields carry the prefix \<open>o_\<close>, since a record field is a
  constant and several names are fields of \<open>Extensions\<close> and \<open>Policy\<close> too.
\<close>

record Options =
  o_SignerRepo :: string
  o_SignerWorkflow :: string
  o_SAN :: string
  o_SANRegex :: string
  o_DenySelfHostedRunner :: bool
  o_Repo :: string
  o_Tenant :: string
  o_Owner :: string
  o_Hostname :: string
  o_OIDCIssuer :: string

text \<open>
  Modelled from the spec: the processing result of the external verifier
  (\<^verbatim>\<open>verification.AttestationProcessingResult\<close>) is declared outside this file. The
  spec: attestation processing results, each exposing a nested certificate-extensions
  record with at least SourceRepositoryOwnerURI, SourceRepositoryURI, Issuer, consumed
  read-only. The field \<open>CertExtensions\<close> stands for the path
  \<^verbatim>\<open>VerificationResult.Signature.Certificate.Extensions\<close>, which the evaluator reads
  on a result handed over by the verifier (every pointer on the path set).
\<close>

record CertificateExtensions =
  cert_Issuer :: string
  cert_SourceRepositoryOwnerURI :: string
  cert_SourceRepositoryURI :: string

record AttestationProcessingResult =
  CertExtensions :: CertificateExtensions

subsection \<open>The certificate-extension evaluator\<close>

text \<open>
  \<^verbatim>\<open>verifyCertExtensions\<close>. The three values observed in the certificate are
  bound first; the source reads each one inside its check, and reading has no effect.
  Each check is the pair of nested conditions of the source: the constraint is populated,
  and \<^verbatim>\<open>strings.EqualFold\<close> fails. The checks run in the order of the source and
  the first failure returns.
\<close>

definition verifyCertExtensions ::
  "(string \<Rightarrow> string \<Rightarrow> bool) \<Rightarrow> 'a Policy \<Rightarrow> AttestationProcessingResult \<Rightarrow> error option" where
  "verifyCertExtensions uni p attestation =
     (let sourceRepositoryOwnerURI = cert_SourceRepositoryOwnerURI (CertExtensions attestation);
          sourceRepositoryURI = cert_SourceRepositoryURI (CertExtensions attestation);
          certIssuer = cert_Issuer (CertExtensions attestation)
      in
      if SourceRepositoryOwnerURI (Extensions p) \<noteq> [] \<and>
         \<not> EqualFold uni (SourceRepositoryOwnerURI (Extensions p)) sourceRepositoryOwnerURI
      then Some (Error (''expected SourceRepositoryOwnerURI to be ''
                   @ SourceRepositoryOwnerURI (Extensions p) @ '', got '' @ sourceRepositoryOwnerURI))
      else if SourceRepositoryURI (Extensions p) \<noteq> [] \<and>
         \<not> EqualFold uni (SourceRepositoryURI (Extensions p)) sourceRepositoryURI
      then Some (Error (''expected SourceRepositoryURI to be ''
                   @ SourceRepositoryURI (Extensions p) @ '', got '' @ sourceRepositoryURI))
      else if OIDCIssuer p \<noteq> [] \<and> \<not> EqualFold uni (OIDCIssuer p) certIssuer
      then
        (if Index certIssuer (OIDCIssuer p @ ''/'') = 0
         then Some (Error (''expected Issuer to be '' @ OIDCIssuer p @ '', got '' @ certIssuer
                   @ '' -- if you have a custom OIDC issuer policy for your enterprise, use the --cert-oidc-issuer flag with your expected issuer''))
         else Some (Error (''expected Issuer to be '' @ OIDCIssuer p @ '', got '' @ certIssuer)))
      else None)"

text \<open>
  The loop of \<^verbatim>\<open>VerifyCertExtensions\<close>, with the loop variable
  \<^verbatim>\<open>atLeastOneVerified\<close> as an accumulator: \<open>Inl err\<close> is the early return of the
  first error, \<open>Inr b\<close> the value of the flag when the range is exhausted.
\<close>

fun VerifyCertExtensions_loop ::
  "(string \<Rightarrow> string \<Rightarrow> bool) \<Rightarrow> 'a Policy \<Rightarrow> AttestationProcessingResult list \<Rightarrow> bool \<Rightarrow> error + bool" where
  "VerifyCertExtensions_loop uni p [] atLeastOneVerified = Inr atLeastOneVerified"
| "VerifyCertExtensions_loop uni p (attestation # results) atLeastOneVerified =
     (case verifyCertExtensions uni p attestation of
        Some err \<Rightarrow> Inl err
      | None \<Rightarrow> VerifyCertExtensions_loop uni p results True)"

definition VerifyCertExtensions ::
  "(string \<Rightarrow> string \<Rightarrow> bool) \<Rightarrow> 'a Policy \<Rightarrow> AttestationProcessingResult list \<Rightarrow> error option" where
  "VerifyCertExtensions uni p results =
     (if length results = 0 then Some (Error ''no attestations proccessing results'')
      else
        (case VerifyCertExtensions_loop uni p results False of
           Inl err \<Rightarrow> Some err
         | Inr atLeastOneVerified \<Rightarrow>
             if atLeastOneVerified then None else Some ErrNoAttestationsVerified))"

subsection \<open>The host pattern of a signer workflow\<close>

text \<open>
  A regular expression as \<^verbatim>\<open>regexp/syntax\<close> parses it, with the operators named
  after the parser's (\<^verbatim>\<open>OpNoMatch\<close>, \<^verbatim>\<open>OpEmptyMatch\<close>, \<^verbatim>\<open>OpLiteral\<close>,
  \<^verbatim>\<open>OpCharClass\<close>, \<^verbatim>\<open>OpAnyCharNotNL\<close>, \<^verbatim>\<open>OpConcat\<close>,
  \<^verbatim>\<open>OpAlternate\<close>, \<^verbatim>\<open>OpStar\<close>, \<^verbatim>\<open>OpPlus\<close>). A character class is a
  list of ranges, both ends included. Only the operators that \<^verbatim>\<open>hostRegex\<close> needs
  are here.
\<close>

datatype regex =
    NoMatch
  | EmptyMatch
  | Literal char
  | CharClass "(char \<times> char) list"
  | AnyCharNotNL
  | Concat regex regex
  | Alternate regex regex
  | Star regex
  | Plus regex

fun inClass :: "char \<Rightarrow> (char \<times> char) list \<Rightarrow> bool" where
  "inClass c [] = False"
| "inClass c ((lo, hi) # ranges) =
     (((of_char lo :: nat) \<le> of_char c \<and> (of_char c :: nat) \<le> of_char hi) \<or> inClass c ranges)"

text \<open>Whether the expression matches the empty string.\<close>

fun matchesEmpty :: "regex \<Rightarrow> bool" where
  "matchesEmpty NoMatch = False"
| "matchesEmpty EmptyMatch = True"
| "matchesEmpty (Literal d) = False"
| "matchesEmpty (CharClass ranges) = False"
| "matchesEmpty AnyCharNotNL = False"
| "matchesEmpty (Concat r1 r2) = (matchesEmpty r1 \<and> matchesEmpty r2)"
| "matchesEmpty (Alternate r1 r2) = (matchesEmpty r1 \<or> matchesEmpty r2)"
| "matchesEmpty (Star r) = True"
| "matchesEmpty (Plus r) = matchesEmpty r"

text \<open>
  \<open>afterChar c r\<close> matches what \<open>r\<close> matches after a leading \<open>c\<close>. The newline
  is the byte \<open>0x0A\<close>.
\<close>

fun afterChar :: "char \<Rightarrow> regex \<Rightarrow> regex" where
  "afterChar c NoMatch = NoMatch"
| "afterChar c EmptyMatch = NoMatch"
| "afterChar c (Literal d) = (if c = d then EmptyMatch else NoMatch)"
| "afterChar c (CharClass ranges) = (if inClass c ranges then EmptyMatch else NoMatch)"
| "afterChar c AnyCharNotNL = (if c = CHR 0x0A then NoMatch else EmptyMatch)"
| "afterChar c (Concat r1 r2) =
     (if matchesEmpty r1 then Alternate (Concat (afterChar c r1) r2) (afterChar c r2)
      else Concat (afterChar c r1) r2)"
| "afterChar c (Alternate r1 r2) = Alternate (afterChar c r1) (afterChar c r2)"
| "afterChar c (Star r) = Concat (afterChar c r) (Star r)"
| "afterChar c (Plus r) = Concat (afterChar c r) (Star r)"

text \<open>Whether the expression matches the whole of the text.\<close>

fun matchWhole :: "regex \<Rightarrow> string \<Rightarrow> bool" where
  "matchWhole r [] = matchesEmpty r"
| "matchWhole r (c # s) = matchWhole (afterChar c r) s"

text \<open>
  The class \<^verbatim>\<open>[a-zA-Z0-9-]\<close> and the constant
  \<^verbatim>\<open>hostRegex = `^[a-zA-Z0-9-]+\.[a-zA-Z0-9-]+.*$`\<close>. The pattern has no flags, so
  \<^verbatim>\<open>^\<close> matches at the beginning of the text only and \<^verbatim>\<open>$\<close> at its end only:
  \<^verbatim>\<open>regexp.MatchString(hostRegex, s)\<close> holds exactly when the expression between
  the two anchors matches the whole of \<open>s\<close>, and \<open>hostRegex\<close> below is that
  expression. The matcher reads bytes where Go's reads runes. For this pattern the two
  agree: the classes and the literal are ASCII, a byte of a multi-byte rune is never
  ASCII, and \<^verbatim>\<open>.\<close> matches every rune but the newline (a byte that is not valid
  UTF-8 is read as the rune U+FFFD, which \<^verbatim>\<open>.\<close> matches). The pattern is a constant
  that compiles, so the error result of \<^verbatim>\<open>regexp.MatchString\<close> is always
  \<^verbatim>\<open>nil\<close> and the branch that returns it is not in the model.
\<close>

definition hostClass :: "(char \<times> char) list" where
  "hostClass = [(CHR ''a'', CHR ''z''), (CHR ''A'', CHR ''Z''), (CHR ''0'', CHR ''9''), (CHR ''-'', CHR ''-'')]"

definition hostRegex :: regex where
  "hostRegex =
     Concat (Plus (CharClass hostClass))
       (Concat (Literal (CHR ''.''))
          (Concat (Plus (CharClass hostClass)) (Star AnyCharNotNL)))"

definition MatchString :: "regex \<Rightarrow> string \<Rightarrow> bool" where
  "MatchString pattern s = matchWhole pattern s"

subsection \<open>Policy construction\<close>

definition GitHubRunner :: string where
  "GitHubRunner = ''github-hosted''"

definition expandToGitHubURL :: "string \<Rightarrow> string \<Rightarrow> string" where
  "expandToGitHubURL tenant ownerOrRepo =
     (if tenant = [] then ''(?i)^https://github.com/'' @ ownerOrRepo @ ''/''
      else ''(?i)^https://'' @ tenant @ ''.ghe.com/'' @ ownerOrRepo @ ''/'')"

definition validateSignerWorkflow :: "Options \<Rightarrow> error + string" where
  "validateSignerWorkflow opts =
     (if MatchString hostRegex (o_SignerWorkflow opts)
      then Inr (''^https://'' @ o_SignerWorkflow opts)
      else if o_Hostname opts = [] then Inl (Error ''unknown host'')
      else Inr (''^https://'' @ o_Hostname opts @ ''/'' @ o_SignerWorkflow opts))"

text \<open>
  \<^verbatim>\<open>newPolicy\<close>. The policy starts as \<^verbatim>\<open>Policy{Artifact: a}\<close>, every other field
  being the empty string, and is updated statement by statement. The format constant
  \<^verbatim>\<open>verification.GitHubTenantOIDCIssuer\<close> is declared outside this file: the
  parameter \<open>tenantOIDCIssuer\<close> is the function that maps a tenant to
  \<^verbatim>\<open>fmt.Sprintf(verification.GitHubTenantOIDCIssuer, tenant)\<close>.
\<close>

definition newPolicy :: "(string \<Rightarrow> string) \<Rightarrow> Options \<Rightarrow> 'a \<Rightarrow> error + 'a Policy" where
  "newPolicy tenantOIDCIssuer opts a =
     (let p0 = \<lparr>Extensions =
                 \<lparr>RunnerEnvironment = [], SANRegex = [], SAN = [], BuildSourceRepoURI = [],
                  SignerWorkflow = [], SourceRepositoryOwnerURI = [], SourceRepositoryURI = []\<rparr>,
               PredicateType = [], Artifact = a, OIDCIssuer = []\<rparr>;
          san =
            (if o_SignerRepo opts \<noteq> [] then
               Inr (p0\<lparr>Extensions := (Extensions p0)
                      \<lparr>SANRegex := expandToGitHubURL (o_Tenant opts) (o_SignerRepo opts)\<rparr>\<rparr>)
             else if o_SignerWorkflow opts \<noteq> [] then
               (case validateSignerWorkflow opts of
                  Inl err \<Rightarrow> Inl err
                | Inr validatedWorkflowRegex \<Rightarrow>
                    Inr (p0\<lparr>Extensions := (Extensions p0)\<lparr>SANRegex := validatedWorkflowRegex\<rparr>\<rparr>))
             else
               Inr (p0\<lparr>Extensions := (Extensions p0)
                      \<lparr>SANRegex := o_SANRegex opts, SAN := o_SAN opts\<rparr>\<rparr>))
      in case san of
           Inl err \<Rightarrow> Inl err
         | Inr p1 \<Rightarrow>
            (let p2 = p1\<lparr>Extensions := (Extensions p1)
                        \<lparr>RunnerEnvironment :=
                           (if o_DenySelfHostedRunner opts then GitHubRunner else ''*'')\<rparr>\<rparr>;
                 p3 =
                   (if o_Repo opts \<noteq> [] then
                      (let q = (if o_Tenant opts \<noteq> [] then
                                  p2\<lparr>Extensions := (Extensions p2)
                                    \<lparr>BuildSourceRepoURI :=
                                       ''https://'' @ o_Tenant opts @ ''.ghe.com/'' @ o_Repo opts\<rparr>\<rparr>
                                else p2)
                       in q\<lparr>Extensions := (Extensions q)
                            \<lparr>BuildSourceRepoURI := ''https://github.com/'' @ o_Repo opts\<rparr>\<rparr>)
                    else p2);
                 p4 = p3\<lparr>Extensions := (Extensions p3)
                        \<lparr>SourceRepositoryOwnerURI :=
                           (if o_Tenant opts \<noteq> [] then
                              ''https://'' @ o_Tenant opts @ ''.ghe.com/'' @ o_Owner opts
                            else ''https://github.com/'' @ o_Owner opts)\<rparr>\<rparr>;
                 p5 = p4\<lparr>OIDCIssuer :=
                           (if o_Tenant opts \<noteq> [] then tenantOIDCIssuer (o_Tenant opts)
                            else o_OIDCIssuer opts)\<rparr>
             in Inr p5))"

subsection \<open>The predicate-type filter\<close>

text \<open>
  Modelled from the spec: the attestation type (\<^verbatim>\<open>api.Attestation\<close>) and the filter
  \<^verbatim>\<open>verification.FilterAttestations\<close> are in other packages of the repository. The
  spec: attestation envelopes, each exposing a predicate-type string, consumed
  read-only for filtering; \<^verbatim>\<open>filterByPredicateType(predicateType, attestations) -> subset\<close>,
  a pure filter that preserves input order and has no side effects. \<open>att_Bundle\<close> is
  the rest of the envelope, which the filter does not read.
\<close>

record Attestation =
  att_PredicateType :: string
  att_Bundle :: string

definition FilterAttestations :: "string \<Rightarrow> Attestation list \<Rightarrow> Attestation list" where
  "FilterAttestations predicateType attestations =
     filter (\<lambda>each. att_PredicateType each = predicateType) attestations"

text \<open>
  \<^verbatim>\<open>VerifyPredicateType\<close>. The message starts with the three bytes of the UTF-8
  encoding of U+2717 (the ballot cross) and ends with a newline.
\<close>

definition VerifyPredicateType :: "'a Policy \<Rightarrow> Attestation list \<Rightarrow> error + Attestation list" where
  "VerifyPredicateType p a =
     (let filteredAttestations = FilterAttestations (PredicateType p) a
      in if length filteredAttestations = 0
         then Inl (Error ([CHR 0xE2, CHR 0x9C, CHR 0x97]
                @ '' No attestations found with predicate type: '' @ PredicateType p @ [CHR 0x0A]))
         else Inr filteredAttestations)"

subsection \<open>The vocabulary of the specification\<close>

text \<open>
  These definitions follow the words of the specification, not the code; the theorems
  compare the code with them. A constraint of the policy is populated when its expected
  value is not empty. A populated constraint is satisfied by an observed value that
  equals the expected one up to case; an empty expected value constrains nothing.
\<close>

definition constraintSatisfied :: "(string \<Rightarrow> string \<Rightarrow> bool) \<Rightarrow> string \<Rightarrow> string \<Rightarrow> bool" where
  "constraintSatisfied uni expected observed = (expected = [] \<or> EqualFold uni expected observed)"

definition satisfiesConstraints ::
  "(string \<Rightarrow> string \<Rightarrow> bool) \<Rightarrow> 'a Policy \<Rightarrow> AttestationProcessingResult \<Rightarrow> bool" where
  "satisfiesConstraints uni p r =
     (constraintSatisfied uni (SourceRepositoryOwnerURI (Extensions p))
        (cert_SourceRepositoryOwnerURI (CertExtensions r)) \<and>
      constraintSatisfied uni (SourceRepositoryURI (Extensions p))
        (cert_SourceRepositoryURI (CertExtensions r)) \<and>
      constraintSatisfied uni (OIDCIssuer p) (cert_Issuer (CertExtensions r)))"

text \<open>The lower-case form of an ASCII letter; every other byte is left as it is.\<close>

definition lowerASCII :: "char \<Rightarrow> char" where
  "lowerASCII c =
     (if 65 \<le> (of_char c :: nat) \<and> (of_char c :: nat) \<le> 90 then char_of (of_char c + 32 :: nat)
      else c)"

text \<open>
  What it means for an expression to match the whole of a text, as the syntax of regular
  expressions defines it: a relation, against which the matcher above is checked.
\<close>

inductive matches :: "regex \<Rightarrow> string \<Rightarrow> bool" where
  mEmptyMatch: "matches EmptyMatch []"
| mLiteral: "matches (Literal d) [d]"
| mCharClass: "inClass c ranges \<Longrightarrow> matches (CharClass ranges) [c]"
| mAnyCharNotNL: "c \<noteq> CHR 0x0A \<Longrightarrow> matches AnyCharNotNL [c]"
| mConcat: "matches r1 u \<Longrightarrow> matches r2 v \<Longrightarrow> matches (Concat r1 r2) (u @ v)"
| mAlternateL: "matches r1 w \<Longrightarrow> matches (Alternate r1 r2) w"
| mAlternateR: "matches r2 w \<Longrightarrow> matches (Alternate r1 r2) w"
| mStarNone: "matches (Star r) []"
| mStarMore: "matches r u \<Longrightarrow> matches (Star r) v \<Longrightarrow> matches (Star r) (u @ v)"
| mPlus: "matches r u \<Longrightarrow> matches (Star r) v \<Longrightarrow> matches (Plus r) (u @ v)"

text \<open>
  The reading of \<^verbatim>\<open>hostRegex\<close>. A host character is a letter (bytes 97 to 122 and
  65 to 90), a digit (bytes 48 to 57) or the hyphen (byte 45). A text is host-shaped
  when it starts with a run of host characters, a dot and another run of host
  characters, both runs not empty, and has no newline after them.
\<close>

definition hostChar :: "char \<Rightarrow> bool" where
  "hostChar c =
     (let n = (of_char c :: nat)
      in (97 \<le> n \<and> n \<le> 122) \<or> (65 \<le> n \<and> n \<le> 90) \<or> (48 \<le> n \<and> n \<le> 57) \<or> n = 45)"

definition hostShaped :: "string \<Rightarrow> bool" where
  "hostShaped s =
     (\<exists>a b c. s = a @ ''.'' @ b @ c \<and> a \<noteq> [] \<and> list_all hostChar a \<and>
              b \<noteq> [] \<and> list_all hostChar b \<and> CHR 0x0A \<notin> set c)"

section \<open>Properties\<close>

subsection \<open>Library functions\<close>

lemma of_char_lowerASCII:
  "(of_char (lowerASCII c) :: nat) =
     (if 65 \<le> (of_char c :: nat) \<and> (of_char c :: nat) \<le> 90 then of_char c + 32 else of_char c)"
  by (simp add: lowerASCII_def)

lemma lowerASCII_eq_iff:
  "lowerASCII a = lowerASCII b \<longleftrightarrow>
     (b = a \<or> (let lo = min (of_char a :: nat) (of_char b); hi = max (of_char a :: nat) (of_char b)
                in 65 \<le> lo \<and> lo \<le> 90 \<and> hi = lo + 97 - 65))"
proof -
  have inj: "x = y \<longleftrightarrow> (of_char x :: nat) = of_char y" for x y :: char
    by simp
  show ?thesis
    unfolding inj [of "lowerASCII a"] inj [of b a] of_char_lowerASCII
    by (auto simp: Let_def min_def max_def)
qed

text \<open>
  On ASCII strings \<open>EqualFold\<close> is equality up to the case of letters, whatever the
  rune loop does.
\<close>

lemma EqualFold_ASCII:
  "\<forall>c\<in>set s \<union> set t. (of_char c :: nat) < 128 \<Longrightarrow>
     EqualFold uni s t \<longleftrightarrow> map lowerASCII s = map lowerASCII t"
proof (induction uni s t rule: EqualFold.induct)
  case (1 uni sr s tr t)
  then show ?case
    using lowerASCII_eq_iff [of sr tr] by (auto simp: Let_def)
qed auto

text \<open>The test \<^verbatim>\<open>strings.Index(s, substr) == 0\<close> is the prefix test.\<close>

lemma Index_eq_0_iff: "Index s substr = 0 \<longleftrightarrow> prefix substr s"
  by (cases s) (auto simp: Let_def)

subsection \<open>The per-result check\<close>

lemma verifyCertExtensions_None_iff:
  "verifyCertExtensions uni p r = None \<longleftrightarrow> satisfiesConstraints uni p r"
  by (auto simp: verifyCertExtensions_def satisfiesConstraints_def constraintSatisfied_def Let_def)

lemma verifyCertExtensions_not_sentinel:
  "verifyCertExtensions uni p r \<noteq> Some ErrNoAttestationsVerified"
  by (simp add: verifyCertExtensions_def Let_def)



subsection \<open>The loop over the results\<close>

lemma loop_Inr_iff:
  "VerifyCertExtensions_loop uni p results b = Inr b' \<longleftrightarrow>
     (\<forall>r\<in>set results. verifyCertExtensions uni p r = None) \<and> b' = (if results = [] then b else True)"
  by (induction results arbitrary: b) (auto split: option.splits)

lemma loop_Inl_iff:
  "(\<exists>err. VerifyCertExtensions_loop uni p results b = Inl err) \<longleftrightarrow>
     (\<exists>r\<in>set results. verifyCertExtensions uni p r \<noteq> None)"
  by (induction results arbitrary: b) (auto split: option.splits)

lemma loop_first_error:
  "\<forall>x\<in>set pre. verifyCertExtensions uni p x = None \<Longrightarrow> verifyCertExtensions uni p r = Some err
   \<Longrightarrow> VerifyCertExtensions_loop uni p (pre @ r # post) b = Inl err"
  by (induction pre arbitrary: b) auto

lemma loop_not_sentinel:
  "VerifyCertExtensions_loop uni p results b \<noteq> Inl ErrNoAttestationsVerified"
  using verifyCertExtensions_not_sentinel [of uni p]
  by (induction results arbitrary: b) (auto split: option.splits)

text \<open>
  Claim C2. On a list of results that is not empty, \<^verbatim>\<open>VerifyCertExtensions\<close> returns
  \<^verbatim>\<open>nil\<close> exactly when every result satisfies every populated constraint. Otherwise
  it returns the error of the first result, in the order of the list, that fails its
  check: whatever results follow that one, they change nothing.
\<close>

theorem VerifyCertExtensions_nil_iff_and_first_error:
  assumes "results \<noteq> []"
  shows "(VerifyCertExtensions uni p results = None \<longleftrightarrow>
           (\<forall>r\<in>set results. satisfiesConstraints uni p r)) \<and>
         (\<forall>pre r post err. results = pre @ r # post \<longrightarrow>
            (\<forall>x\<in>set pre. satisfiesConstraints uni p x) \<longrightarrow>
            verifyCertExtensions uni p r = Some err \<longrightarrow>
            VerifyCertExtensions uni p results = Some err)"
proof (intro conjI allI impI)
  show "VerifyCertExtensions uni p results = None \<longleftrightarrow>
           (\<forall>r\<in>set results. satisfiesConstraints uni p r)"
    using assms loop_Inl_iff [of uni p results False]
    by (auto simp: VerifyCertExtensions_def loop_Inr_iff verifyCertExtensions_None_iff
        split: sum.splits)
next
  fix pre r post err
  assume "results = pre @ r # post" "\<forall>x\<in>set pre. satisfiesConstraints uni p x"
    "verifyCertExtensions uni p r = Some err"
  then show "VerifyCertExtensions uni p results = Some err"
    using loop_first_error [of pre uni p r err post False]
    by (simp add: VerifyCertExtensions_def verifyCertExtensions_None_iff)
qed

text \<open>
  Three results, of which the second has another owner and the third another issuer:
  the error is the one of the second.
\<close>

theorem VerifyCertExtensions_nil_iff_and_first_error_witness:
  "[\<lparr>CertExtensions = \<lparr>cert_Issuer = ''https://issuer.example'',
        cert_SourceRepositoryOwnerURI = ''https://github.com/octo'', cert_SourceRepositoryURI = []\<rparr>\<rparr>,
    \<lparr>CertExtensions = \<lparr>cert_Issuer = ''https://issuer.example'',
        cert_SourceRepositoryOwnerURI = ''https://github.com/evil'', cert_SourceRepositoryURI = []\<rparr>\<rparr>,
    \<lparr>CertExtensions = \<lparr>cert_Issuer = ''https://other.example'',
        cert_SourceRepositoryOwnerURI = ''https://github.com/octo'', cert_SourceRepositoryURI = []\<rparr>\<rparr>] \<noteq> [] \<and>
   VerifyCertExtensions (=)
     \<lparr>Extensions = \<lparr>RunnerEnvironment = ''*'', SANRegex = [], SAN = [], BuildSourceRepoURI = [],
        SignerWorkflow = [], SourceRepositoryOwnerURI = ''https://github.com/octo'',
        SourceRepositoryURI = []\<rparr>,
      PredicateType = [], Artifact = (), OIDCIssuer = ''https://issuer.example''\<rparr>
     [\<lparr>CertExtensions = \<lparr>cert_Issuer = ''https://issuer.example'',
        cert_SourceRepositoryOwnerURI = ''https://github.com/octo'', cert_SourceRepositoryURI = []\<rparr>\<rparr>,
      \<lparr>CertExtensions = \<lparr>cert_Issuer = ''https://issuer.example'',
        cert_SourceRepositoryOwnerURI = ''https://github.com/evil'', cert_SourceRepositoryURI = []\<rparr>\<rparr>,
      \<lparr>CertExtensions = \<lparr>cert_Issuer = ''https://other.example'',
        cert_SourceRepositoryOwnerURI = ''https://github.com/octo'', cert_SourceRepositoryURI = []\<rparr>\<rparr>]
   = Some (Error ''expected SourceRepositoryOwnerURI to be https://github.com/octo, got https://github.com/evil'')"
proof -
  let ?p = "\<lparr>Extensions = \<lparr>RunnerEnvironment = ''*'', SANRegex = [], SAN = [], BuildSourceRepoURI = [],
        SignerWorkflow = [], SourceRepositoryOwnerURI = ''https://github.com/octo'',
        SourceRepositoryURI = []\<rparr>,
      PredicateType = [], Artifact = (), OIDCIssuer = ''https://issuer.example''\<rparr>"
  let ?r1 = "\<lparr>CertExtensions = \<lparr>cert_Issuer = ''https://issuer.example'',
        cert_SourceRepositoryOwnerURI = ''https://github.com/octo'', cert_SourceRepositoryURI = []\<rparr>\<rparr>"
  let ?r2 = "\<lparr>CertExtensions = \<lparr>cert_Issuer = ''https://issuer.example'',
        cert_SourceRepositoryOwnerURI = ''https://github.com/evil'', cert_SourceRepositoryURI = []\<rparr>\<rparr>"
  let ?r3 = "\<lparr>CertExtensions = \<lparr>cert_Issuer = ''https://other.example'',
        cert_SourceRepositoryOwnerURI = ''https://github.com/octo'', cert_SourceRepositoryURI = []\<rparr>\<rparr>"
  let ?err = "Error ''expected SourceRepositoryOwnerURI to be https://github.com/octo, got https://github.com/evil''"
  have ne: "[?r1, ?r2, ?r3] \<noteq> []"
    by simp
  have split: "[?r1, ?r2, ?r3] = [?r1] @ ?r2 # [?r3]"
    by simp
  have before: "\<forall>x\<in>set [?r1]. satisfiesConstraints (=) ?p x"
    by (simp add: satisfiesConstraints_def constraintSatisfied_def)
  have fails: "verifyCertExtensions (=) ?p ?r2 = Some ?err"
    by (simp add: verifyCertExtensions_def)
  have "VerifyCertExtensions (=) ?p [?r1, ?r2, ?r3] = Some ?err"
    using VerifyCertExtensions_nil_iff_and_first_error [OF ne, of "(=)" ?p] split before fails
    by blast
  with ne show ?thesis
    by blast
qed

text \<open>
  Claim C3. On the empty list \<^verbatim>\<open>VerifyCertExtensions\<close> returns the error of the empty
  input, and on no list does it return the fallback
  \<^verbatim>\<open>verification.ErrNoAttestationsVerified\<close>: the branch that returns it needs the loop
  to end with the flag still false on a list that is not empty, which never happens.
\<close>

theorem VerifyCertExtensions_empty_and_no_fallback:
  "VerifyCertExtensions uni p [] = Some (Error ''no attestations proccessing results'') \<and>
   VerifyCertExtensions uni p results \<noteq> Some ErrNoAttestationsVerified \<and>
   (results \<noteq> [] \<longrightarrow> VerifyCertExtensions_loop uni p results False \<noteq> Inr False)"
proof (intro conjI impI)
  show "VerifyCertExtensions uni p [] = Some (Error ''no attestations proccessing results'')"
    by (simp add: VerifyCertExtensions_def)
  show "results \<noteq> [] \<Longrightarrow> VerifyCertExtensions_loop uni p results False \<noteq> Inr False"
    by (simp add: loop_Inr_iff)
  show "VerifyCertExtensions uni p results \<noteq> Some ErrNoAttestationsVerified"
    using loop_not_sentinel [of uni p results False]
    by (auto simp: VerifyCertExtensions_def loop_Inr_iff split: sum.splits)
qed

text \<open>A list of one result that passes: the loop ends with the flag set.\<close>

theorem VerifyCertExtensions_empty_and_no_fallback_witness:
  "[\<lparr>CertExtensions = \<lparr>cert_Issuer = ''https://issuer.example'',
        cert_SourceRepositoryOwnerURI = ''https://github.com/octo'', cert_SourceRepositoryURI = []\<rparr>\<rparr>] \<noteq> [] \<and>
   VerifyCertExtensions_loop (=)
     \<lparr>Extensions = \<lparr>RunnerEnvironment = ''*'', SANRegex = [], SAN = [], BuildSourceRepoURI = [],
        SignerWorkflow = [], SourceRepositoryOwnerURI = ''https://github.com/octo'',
        SourceRepositoryURI = []\<rparr>,
      PredicateType = [], Artifact = (), OIDCIssuer = ''https://issuer.example''\<rparr>
     [\<lparr>CertExtensions = \<lparr>cert_Issuer = ''https://issuer.example'',
        cert_SourceRepositoryOwnerURI = ''https://github.com/octo'', cert_SourceRepositoryURI = []\<rparr>\<rparr>]
     False \<noteq> Inr False"
  using VerifyCertExtensions_empty_and_no_fallback [of "(=)"
     "\<lparr>Extensions = \<lparr>RunnerEnvironment = ''*'', SANRegex = [], SAN = [], BuildSourceRepoURI = [],
        SignerWorkflow = [], SourceRepositoryOwnerURI = ''https://github.com/octo'',
        SourceRepositoryURI = []\<rparr>,
      PredicateType = [], Artifact = (), OIDCIssuer = ''https://issuer.example''\<rparr>"
     "[\<lparr>CertExtensions = \<lparr>cert_Issuer = ''https://issuer.example'',
        cert_SourceRepositoryOwnerURI = ''https://github.com/octo'', cert_SourceRepositoryURI = []\<rparr>\<rparr>]"]
  by simp

subsection \<open>The issuer check\<close>

text \<open>
  Claim C6, as amended. For a policy with a populated issuer and a result that satisfies
  the owner and repository constraints (each empty in the policy or equal up to case to
  the observed value) and whose observed issuer differs from the expected one up to case:
  if the observed issuer starts with the expected issuer followed by a slash, the check
  fails with the error that names the flag \<^verbatim>\<open>--cert-oidc-issuer\<close>; otherwise it
  fails with the plain mismatch error, which names the expected and the observed value.
  The two errors differ.
\<close>

theorem verifyCertExtensions_issuer_mismatch:
  assumes "OIDCIssuer p \<noteq> []"
      and "\<not> EqualFold uni (OIDCIssuer p) (cert_Issuer (CertExtensions r))"
      and "SourceRepositoryOwnerURI (Extensions p) = [] \<or>
           EqualFold uni (SourceRepositoryOwnerURI (Extensions p))
             (cert_SourceRepositoryOwnerURI (CertExtensions r))"
      and "SourceRepositoryURI (Extensions p) = [] \<or>
           EqualFold uni (SourceRepositoryURI (Extensions p))
             (cert_SourceRepositoryURI (CertExtensions r))"
  shows "verifyCertExtensions uni p r =
     (if prefix (OIDCIssuer p @ ''/'') (cert_Issuer (CertExtensions r))
      then Some (Error (''expected Issuer to be '' @ OIDCIssuer p @ '', got ''
                   @ cert_Issuer (CertExtensions r)
                   @ '' -- if you have a custom OIDC issuer policy for your enterprise, use the --cert-oidc-issuer flag with your expected issuer''))
      else Some (Error (''expected Issuer to be '' @ OIDCIssuer p @ '', got ''
                   @ cert_Issuer (CertExtensions r)))) \<and>
    ''expected Issuer to be '' @ OIDCIssuer p @ '', got '' @ cert_Issuer (CertExtensions r)
      @ '' -- if you have a custom OIDC issuer policy for your enterprise, use the --cert-oidc-issuer flag with your expected issuer''
    \<noteq> ''expected Issuer to be '' @ OIDCIssuer p @ '', got '' @ cert_Issuer (CertExtensions r)"
  using assms by (auto simp: verifyCertExtensions_def Let_def Index_eq_0_iff)

text \<open>
  The example of the specification: the expected issuer \<^verbatim>\<open>https://issuer.example\<close>
  and the observed issuer \<^verbatim>\<open>https://issuer.example/enterprise-x\<close>.
\<close>

theorem verifyCertExtensions_issuer_mismatch_witness:
  "verifyCertExtensions (=)
     \<lparr>Extensions = \<lparr>RunnerEnvironment = ''*'', SANRegex = [], SAN = [], BuildSourceRepoURI = [],
        SignerWorkflow = [], SourceRepositoryOwnerURI = ''https://github.com/octo'',
        SourceRepositoryURI = []\<rparr>,
      PredicateType = [], Artifact = (), OIDCIssuer = ''https://issuer.example''\<rparr>
     \<lparr>CertExtensions = \<lparr>cert_Issuer = ''https://issuer.example/enterprise-x'',
        cert_SourceRepositoryOwnerURI = ''https://github.com/OCTO'',
        cert_SourceRepositoryURI = ''https://github.com/octo/repo''\<rparr>\<rparr>
   = Some (Error ''expected Issuer to be https://issuer.example, got https://issuer.example/enterprise-x -- if you have a custom OIDC issuer policy for your enterprise, use the --cert-oidc-issuer flag with your expected issuer'')"
proof -
  let ?p = "\<lparr>Extensions = \<lparr>RunnerEnvironment = ''*'', SANRegex = [], SAN = [], BuildSourceRepoURI = [],
        SignerWorkflow = [], SourceRepositoryOwnerURI = ''https://github.com/octo'',
        SourceRepositoryURI = []\<rparr>,
      PredicateType = [], Artifact = (), OIDCIssuer = ''https://issuer.example''\<rparr>"
  let ?r = "\<lparr>CertExtensions = \<lparr>cert_Issuer = ''https://issuer.example/enterprise-x'',
        cert_SourceRepositoryOwnerURI = ''https://github.com/OCTO'',
        cert_SourceRepositoryURI = ''https://github.com/octo/repo''\<rparr>\<rparr>"
  have 1: "OIDCIssuer ?p \<noteq> []"
    by simp
  have 2: "\<not> EqualFold (=) (OIDCIssuer ?p) (cert_Issuer (CertExtensions ?r))"
    by simp
  have 3: "SourceRepositoryOwnerURI (Extensions ?p) = [] \<or>
           EqualFold (=) (SourceRepositoryOwnerURI (Extensions ?p))
             (cert_SourceRepositoryOwnerURI (CertExtensions ?r))"
    by simp
  have 4: "SourceRepositoryURI (Extensions ?p) = [] \<or>
           EqualFold (=) (SourceRepositoryURI (Extensions ?p))
             (cert_SourceRepositoryURI (CertExtensions ?r))"
    by simp
  show ?thesis
    using verifyCertExtensions_issuer_mismatch [OF 1 2 3 4] by simp
qed

text \<open>
  Claim C6 as it is written fails: it speaks of every policy with a populated issuer,
  but the owner check comes first. Here the observed issuer is the expected one followed
  by \<^verbatim>\<open>/enterprise-x\<close> and the observed owner is not the expected one: the error is
  the one of the owner, not the one that names the flag.
\<close>

theorem verifyCertExtensions_issuer_mismatch_counterexample:
  "''https://issuer.example'' \<noteq> [] \<and>
   \<not> EqualFold (=) ''https://issuer.example'' ''https://issuer.example/enterprise-x'' \<and>
   prefix (''https://issuer.example'' @ ''/'') ''https://issuer.example/enterprise-x'' \<and>
   verifyCertExtensions (=)
     \<lparr>Extensions = \<lparr>RunnerEnvironment = ''*'', SANRegex = [], SAN = [], BuildSourceRepoURI = [],
        SignerWorkflow = [], SourceRepositoryOwnerURI = ''https://github.com/octo'',
        SourceRepositoryURI = []\<rparr>,
      PredicateType = [], Artifact = (), OIDCIssuer = ''https://issuer.example''\<rparr>
     \<lparr>CertExtensions = \<lparr>cert_Issuer = ''https://issuer.example/enterprise-x'',
        cert_SourceRepositoryOwnerURI = ''https://github.com/evil'',
        cert_SourceRepositoryURI = ''https://github.com/evil/repo''\<rparr>\<rparr>
   = Some (Error ''expected SourceRepositoryOwnerURI to be https://github.com/octo, got https://github.com/evil'') \<and>
   Error ''expected SourceRepositoryOwnerURI to be https://github.com/octo, got https://github.com/evil''
   \<noteq> Error ''expected Issuer to be https://issuer.example, got https://issuer.example/enterprise-x -- if you have a custom OIDC issuer policy for your enterprise, use the --cert-oidc-issuer flag with your expected issuer''"
  by (simp add: verifyCertExtensions_def)

subsection \<open>Policy construction\<close>

text \<open>The policy that \<^verbatim>\<open>newPolicy\<close> returns, field by field.\<close>

lemma newPolicy_eq:
  "newPolicy ti opts a =
     (case (if o_SignerRepo opts \<noteq> [] then
              Inr (expandToGitHubURL (o_Tenant opts) (o_SignerRepo opts), [])
            else if o_SignerWorkflow opts \<noteq> [] then
              (case validateSignerWorkflow opts of Inl err \<Rightarrow> Inl err | Inr regex \<Rightarrow> Inr (regex, []))
            else Inr (o_SANRegex opts, o_SAN opts)) of
        Inl err \<Rightarrow> Inl err
      | Inr (regex, san) \<Rightarrow>
          Inr \<lparr>Extensions =
                 \<lparr>RunnerEnvironment = (if o_DenySelfHostedRunner opts then GitHubRunner else ''*''),
                  SANRegex = regex, SAN = san,
                  BuildSourceRepoURI =
                    (if o_Repo opts \<noteq> [] then ''https://github.com/'' @ o_Repo opts else []),
                  SignerWorkflow = [],
                  SourceRepositoryOwnerURI =
                    (if o_Tenant opts \<noteq> [] then
                       ''https://'' @ o_Tenant opts @ ''.ghe.com/'' @ o_Owner opts
                     else ''https://github.com/'' @ o_Owner opts),
                  SourceRepositoryURI = []\<rparr>,
               PredicateType = [], Artifact = a,
               OIDCIssuer = (if o_Tenant opts \<noteq> [] then ti (o_Tenant opts) else o_OIDCIssuer opts)\<rparr>)"
  by (simp add: newPolicy_def Let_def split: sum.splits)

lemma newPolicy_fields:
  assumes "newPolicy ti opts a = Inr p"
  shows "RunnerEnvironment (Extensions p) = (if o_DenySelfHostedRunner opts then GitHubRunner else ''*'')"
    and "BuildSourceRepoURI (Extensions p) =
           (if o_Repo opts \<noteq> [] then ''https://github.com/'' @ o_Repo opts else [])"
    and "SourceRepositoryURI (Extensions p) = []"
  using assms by (auto simp: newPolicy_eq split: if_splits sum.splits)

lemma newPolicy_Repo_update:
  "newPolicy ti (opts\<lparr>o_Repo := repo\<rparr>) a =
     map_sum id
       (\<lambda>p. p\<lparr>Extensions := (Extensions p)
              \<lparr>BuildSourceRepoURI := (if repo \<noteq> [] then ''https://github.com/'' @ repo else [])\<rparr>\<rparr>)
       (newPolicy ti opts a)"
  by (simp add: newPolicy_eq validateSignerWorkflow_def split: sum.splits)

lemma verifyCertExtensions_BuildSourceRepoURI_update:
  "verifyCertExtensions uni (p\<lparr>Extensions := (Extensions p)\<lparr>BuildSourceRepoURI := x\<rparr>\<rparr>) r =
     verifyCertExtensions uni p r"
  by (simp add: verifyCertExtensions_def Let_def)

text \<open>
  Claim C4. The mode of the SAN is resolved by priority, without falling through. With a
  signer repository, \<open>SANRegex\<close> is the expression derived from it and \<open>SAN\<close> stays
  empty, whatever the signer workflow, the SAN and the SAN expression of the options are.
  Otherwise, with a signer workflow, \<open>SANRegex\<close> is the result of the validation of the
  workflow (and an error of the validation is the error of the construction). Otherwise
  the SAN and the SAN expression of the options pass through as they are. The derived
  expression is \<^verbatim>\<open>(?i)^https://github.com/<ownerOrRepo>/\<close> without a tenant and
  \<^verbatim>\<open>(?i)^https://<tenant>.ghe.com/<ownerOrRepo>/\<close> with one.
\<close>

theorem newPolicy_SAN_priority:
  "(o_SignerRepo opts \<noteq> [] \<longrightarrow>
      (\<exists>p. newPolicy ti opts a = Inr p \<and>
           SANRegex (Extensions p) = expandToGitHubURL (o_Tenant opts) (o_SignerRepo opts) \<and>
           SAN (Extensions p) = [])) \<and>
   (o_SignerRepo opts = [] \<and> o_SignerWorkflow opts \<noteq> [] \<longrightarrow>
      (case validateSignerWorkflow opts of
         Inl err \<Rightarrow> newPolicy ti opts a = Inl err
       | Inr regex \<Rightarrow>
           \<exists>p. newPolicy ti opts a = Inr p \<and> SANRegex (Extensions p) = regex \<and>
               SAN (Extensions p) = [])) \<and>
   (o_SignerRepo opts = [] \<and> o_SignerWorkflow opts = [] \<longrightarrow>
      (\<exists>p. newPolicy ti opts a = Inr p \<and> SANRegex (Extensions p) = o_SANRegex opts \<and>
           SAN (Extensions p) = o_SAN opts)) \<and>
   expandToGitHubURL tenant ownerOrRepo =
     (if tenant = [] then ''(?i)^https://github.com/'' @ ownerOrRepo @ ''/''
      else ''(?i)^https://'' @ tenant @ ''.ghe.com/'' @ ownerOrRepo @ ''/'')"
  by (simp add: newPolicy_eq expandToGitHubURL_def split: sum.splits)

text \<open>
  Three options bundles: one with a signer repository and a tenant, whose signer
  workflow, SAN and SAN expression are ignored; one with a signer workflow that has a
  host, whose SAN and SAN expression are ignored; one with neither.
\<close>

theorem newPolicy_SAN_priority_witness:
  "(\<exists>p. newPolicy (\<lambda>tenant. ''https://token.actions.'' @ tenant @ ''.ghe.com'')
          \<lparr>o_SignerRepo = ''octo/signer'', o_SignerWorkflow = ''octo/repo/.github/workflows/ci.yml'',
           o_SAN = ''san'', o_SANRegex = ''regex'', o_DenySelfHostedRunner = False,
           o_Repo = ''octo/repo'', o_Tenant = ''acme'', o_Owner = ''octo'', o_Hostname = [],
           o_OIDCIssuer = []\<rparr> () = Inr p \<and>
       SANRegex (Extensions p) = ''(?i)^https://acme.ghe.com/octo/signer/'' \<and>
       SAN (Extensions p) = []) \<and>
   (\<exists>p. newPolicy (\<lambda>tenant. ''https://token.actions.'' @ tenant @ ''.ghe.com'')
          \<lparr>o_SignerRepo = [], o_SignerWorkflow = ''github.com/octo/repo/.github/workflows/ci.yml'',
           o_SAN = ''san'', o_SANRegex = ''regex'', o_DenySelfHostedRunner = False,
           o_Repo = ''octo/repo'', o_Tenant = [], o_Owner = ''octo'', o_Hostname = [],
           o_OIDCIssuer = []\<rparr> () = Inr p \<and>
       SANRegex (Extensions p) = ''^https://github.com/octo/repo/.github/workflows/ci.yml'' \<and>
       SAN (Extensions p) = []) \<and>
   (\<exists>p. newPolicy (\<lambda>tenant. ''https://token.actions.'' @ tenant @ ''.ghe.com'')
          \<lparr>o_SignerRepo = [], o_SignerWorkflow = [],
           o_SAN = ''san'', o_SANRegex = ''regex'', o_DenySelfHostedRunner = False,
           o_Repo = ''octo/repo'', o_Tenant = [], o_Owner = ''octo'', o_Hostname = [],
           o_OIDCIssuer = []\<rparr> () = Inr p \<and>
       SANRegex (Extensions p) = ''regex'' \<and> SAN (Extensions p) = ''san'')"
proof (intro conjI)
  let ?ti = "\<lambda>tenant. ''https://token.actions.'' @ tenant @ ''.ghe.com''"
  let ?byRepo = "\<lparr>o_SignerRepo = ''octo/signer'', o_SignerWorkflow = ''octo/repo/.github/workflows/ci.yml'',
           o_SAN = ''san'', o_SANRegex = ''regex'', o_DenySelfHostedRunner = False,
           o_Repo = ''octo/repo'', o_Tenant = ''acme'', o_Owner = ''octo'', o_Hostname = [],
           o_OIDCIssuer = []\<rparr>"
  let ?byWorkflow = "\<lparr>o_SignerRepo = [], o_SignerWorkflow = ''github.com/octo/repo/.github/workflows/ci.yml'',
           o_SAN = ''san'', o_SANRegex = ''regex'', o_DenySelfHostedRunner = False,
           o_Repo = ''octo/repo'', o_Tenant = [], o_Owner = ''octo'', o_Hostname = [],
           o_OIDCIssuer = []\<rparr>"
  let ?raw = "\<lparr>o_SignerRepo = [], o_SignerWorkflow = [],
           o_SAN = ''san'', o_SANRegex = ''regex'', o_DenySelfHostedRunner = False,
           o_Repo = ''octo/repo'', o_Tenant = [], o_Owner = ''octo'', o_Hostname = [],
           o_OIDCIssuer = []\<rparr>"
  show "\<exists>p. newPolicy ?ti ?byRepo () = Inr p \<and>
       SANRegex (Extensions p) = ''(?i)^https://acme.ghe.com/octo/signer/'' \<and>
       SAN (Extensions p) = []"
    using newPolicy_SAN_priority [of ?byRepo ?ti "()" "''acme''" "''octo/signer''"]
    by auto
  have "validateSignerWorkflow ?byWorkflow =
          Inr ''^https://github.com/octo/repo/.github/workflows/ci.yml''"
    by (simp add: validateSignerWorkflow_def MatchString_def hostRegex_def hostClass_def)
  then show "\<exists>p. newPolicy ?ti ?byWorkflow () = Inr p \<and>
       SANRegex (Extensions p) = ''^https://github.com/octo/repo/.github/workflows/ci.yml'' \<and>
       SAN (Extensions p) = []"
    using newPolicy_SAN_priority [of ?byWorkflow ?ti "()"]
    by simp
  show "\<exists>p. newPolicy ?ti ?raw () = Inr p \<and>
       SANRegex (Extensions p) = ''regex'' \<and> SAN (Extensions p) = ''san''"
    using newPolicy_SAN_priority [of ?raw ?ti "()"]
    by simp
qed

text \<open>
  Claim C5. With a repository in the options, the \<open>BuildSourceRepoURI\<close> of the policy
  built is \<^verbatim>\<open>https://github.com/<repo>\<close>, with or without a tenant: the assignment of
  the tenant form is overwritten.
\<close>

theorem newPolicy_BuildSourceRepoURI:
  "o_Repo opts \<noteq> [] \<Longrightarrow> newPolicy ti opts a = Inr p \<Longrightarrow>
     BuildSourceRepoURI (Extensions p) = ''https://github.com/'' @ o_Repo opts"
  by (simp add: newPolicy_fields)

text \<open>Options with the repository \<^verbatim>\<open>octo/repo\<close> and the tenant \<^verbatim>\<open>acme\<close>.\<close>

theorem newPolicy_BuildSourceRepoURI_witness:
  "\<exists>p. newPolicy (\<lambda>tenant. ''https://token.actions.'' @ tenant @ ''.ghe.com'')
          \<lparr>o_SignerRepo = [], o_SignerWorkflow = [],
           o_SAN = [], o_SANRegex = [], o_DenySelfHostedRunner = False,
           o_Repo = ''octo/repo'', o_Tenant = ''acme'', o_Owner = ''octo'', o_Hostname = [],
           o_OIDCIssuer = []\<rparr> () = Inr p \<and>
       BuildSourceRepoURI (Extensions p) = ''https://github.com/octo/repo''"
proof -
  let ?ti = "\<lambda>tenant. ''https://token.actions.'' @ tenant @ ''.ghe.com''"
  let ?opts = "\<lparr>o_SignerRepo = [], o_SignerWorkflow = [],
           o_SAN = [], o_SANRegex = [], o_DenySelfHostedRunner = False,
           o_Repo = ''octo/repo'', o_Tenant = ''acme'', o_Owner = ''octo'', o_Hostname = [],
           o_OIDCIssuer = []\<rparr>"
  obtain p where p: "newPolicy ?ti ?opts () = Inr p"
    by (simp add: newPolicy_eq)
  have "o_Repo ?opts \<noteq> []"
    by simp
  from newPolicy_BuildSourceRepoURI [OF this p] have "BuildSourceRepoURI (Extensions p) = ''https://github.com/octo/repo''"
    by simp
  with p show ?thesis
    by blast
qed

text \<open>
  Claim C8. The \<open>RunnerEnvironment\<close> of a policy built is \<^verbatim>\<open>github-hosted\<close> when
  \<^verbatim>\<open>DenySelfHostedRunner\<close> is true and the wildcard \<^verbatim>\<open>*\<close> when it is false; it is
  never the empty string.
\<close>

theorem newPolicy_RunnerEnvironment:
  "newPolicy ti opts a = Inr p \<Longrightarrow>
     RunnerEnvironment (Extensions p) =
       (if o_DenySelfHostedRunner opts then ''github-hosted'' else ''*'') \<and>
     RunnerEnvironment (Extensions p) \<noteq> []"
  by (simp add: newPolicy_fields GitHubRunner_def)

text \<open>Options that deny self-hosted runners.\<close>

theorem newPolicy_RunnerEnvironment_witness:
  "\<exists>p. newPolicy (\<lambda>tenant. ''https://token.actions.'' @ tenant @ ''.ghe.com'')
          \<lparr>o_SignerRepo = [], o_SignerWorkflow = [],
           o_SAN = [], o_SANRegex = [], o_DenySelfHostedRunner = True,
           o_Repo = ''octo/repo'', o_Tenant = [], o_Owner = ''octo'', o_Hostname = [],
           o_OIDCIssuer = []\<rparr> () = Inr p \<and>
       RunnerEnvironment (Extensions p) = ''github-hosted''"
proof -
  let ?ti = "\<lambda>tenant. ''https://token.actions.'' @ tenant @ ''.ghe.com''"
  let ?opts = "\<lparr>o_SignerRepo = [], o_SignerWorkflow = [],
           o_SAN = [], o_SANRegex = [], o_DenySelfHostedRunner = True,
           o_Repo = ''octo/repo'', o_Tenant = [], o_Owner = ''octo'', o_Hostname = [],
           o_OIDCIssuer = []\<rparr>"
  obtain p where p: "newPolicy ?ti ?opts () = Inr p"
    by (simp add: newPolicy_eq)
  from newPolicy_RunnerEnvironment [OF p] have "RunnerEnvironment (Extensions p) = ''github-hosted''"
    by simp
  with p show ?thesis
    by blast
qed

text \<open>
  Claim C10. The construction never sets \<open>SourceRepositoryURI\<close> of the policy: it is
  empty in every policy built (a repository in the options sets \<open>BuildSourceRepoURI\<close>
  only). The evaluator checks \<open>SourceRepositoryURI\<close> and never reads
  \<open>BuildSourceRepoURI\<close>. Hence, for a policy built, the check of the repository URI
  passes for every observed value, and the repository of the options is not enforced:
  with any other repository in the options the construction succeeds as well and the
  evaluator gives the same result.
\<close>

theorem newPolicy_Repo_not_enforced:
  "(newPolicy ti opts a = Inr p \<longrightarrow>
      SourceRepositoryURI (Extensions p) = [] \<and>
      BuildSourceRepoURI (Extensions p) =
        (if o_Repo opts \<noteq> [] then ''https://github.com/'' @ o_Repo opts else []) \<and>
      verifyCertExtensions uni p
          (r\<lparr>CertExtensions := (CertExtensions r)\<lparr>cert_SourceRepositoryURI := observed\<rparr>\<rparr>)
        = verifyCertExtensions uni p r \<and>
      (\<exists>p'. newPolicy ti (opts\<lparr>o_Repo := repo\<rparr>) a = Inr p' \<and>
            verifyCertExtensions uni p' r = verifyCertExtensions uni p r)) \<and>
   verifyCertExtensions uni (q\<lparr>Extensions := (Extensions q)\<lparr>BuildSourceRepoURI := x\<rparr>\<rparr>) r =
     verifyCertExtensions uni q r \<and>
   (SourceRepositoryURI (Extensions q) \<noteq> [] \<and>
    \<not> EqualFold uni (SourceRepositoryURI (Extensions q))
        (cert_SourceRepositoryURI (CertExtensions r)) \<longrightarrow>
      verifyCertExtensions uni q r \<noteq> None)"
proof (intro conjI impI)
  assume np: "newPolicy ti opts a = Inr p"
  then show e: "SourceRepositoryURI (Extensions p) = []"
    by (rule newPolicy_fields)
  from np show "BuildSourceRepoURI (Extensions p) =
        (if o_Repo opts \<noteq> [] then ''https://github.com/'' @ o_Repo opts else [])"
    by (rule newPolicy_fields)
  show "verifyCertExtensions uni p
          (r\<lparr>CertExtensions := (CertExtensions r)\<lparr>cert_SourceRepositoryURI := observed\<rparr>\<rparr>)
        = verifyCertExtensions uni p r"
    using e by (simp add: verifyCertExtensions_def Let_def)
  show "\<exists>p'. newPolicy ti (opts\<lparr>o_Repo := repo\<rparr>) a = Inr p' \<and>
            verifyCertExtensions uni p' r = verifyCertExtensions uni p r"
    using np by (simp add: newPolicy_Repo_update verifyCertExtensions_BuildSourceRepoURI_update)
next
  show "verifyCertExtensions uni (q\<lparr>Extensions := (Extensions q)\<lparr>BuildSourceRepoURI := x\<rparr>\<rparr>) r =
     verifyCertExtensions uni q r"
    by (rule verifyCertExtensions_BuildSourceRepoURI_update)
next
  assume "SourceRepositoryURI (Extensions q) \<noteq> [] \<and>
    \<not> EqualFold uni (SourceRepositoryURI (Extensions q))
        (cert_SourceRepositoryURI (CertExtensions r))"
  then show "verifyCertExtensions uni q r \<noteq> None"
    by (simp add: verifyCertExtensions_def Let_def)
qed

text \<open>
  Options with the repository \<^verbatim>\<open>octo/repo\<close>, and a certificate of the repository
  \<^verbatim>\<open>evil/repo\<close> of the same owner: the check passes.
\<close>

theorem newPolicy_Repo_not_enforced_witness:
  "\<exists>p. newPolicy (\<lambda>tenant. ''https://token.actions.'' @ tenant @ ''.ghe.com'')
          \<lparr>o_SignerRepo = [], o_SignerWorkflow = [],
           o_SAN = [], o_SANRegex = [], o_DenySelfHostedRunner = False,
           o_Repo = ''octo/repo'', o_Tenant = [], o_Owner = ''octo'', o_Hostname = [],
           o_OIDCIssuer = ''https://issuer.example''\<rparr> () = Inr p \<and>
       BuildSourceRepoURI (Extensions p) = ''https://github.com/octo/repo'' \<and>
       SourceRepositoryURI (Extensions p) = [] \<and>
       verifyCertExtensions (=) p
         \<lparr>CertExtensions = \<lparr>cert_Issuer = ''https://issuer.example'',
            cert_SourceRepositoryOwnerURI = ''https://github.com/octo'',
            cert_SourceRepositoryURI = ''https://github.com/evil/repo''\<rparr>\<rparr> = None"
proof -
  let ?ti = "\<lambda>tenant. ''https://token.actions.'' @ tenant @ ''.ghe.com''"
  let ?opts = "\<lparr>o_SignerRepo = [], o_SignerWorkflow = [],
           o_SAN = [], o_SANRegex = [], o_DenySelfHostedRunner = False,
           o_Repo = ''octo/repo'', o_Tenant = [], o_Owner = ''octo'', o_Hostname = [],
           o_OIDCIssuer = ''https://issuer.example''\<rparr>"
  let ?r = "\<lparr>CertExtensions = \<lparr>cert_Issuer = ''https://issuer.example'',
            cert_SourceRepositoryOwnerURI = ''https://github.com/octo'',
            cert_SourceRepositoryURI = ''https://github.com/octo/repo''\<rparr>\<rparr>"
  obtain p where p: "newPolicy ?ti ?opts () = Inr p"
    and owner: "SourceRepositoryOwnerURI (Extensions p) = ''https://github.com/octo''"
    and issuer: "OIDCIssuer p = ''https://issuer.example''"
    by (simp add: newPolicy_eq)
  note built = newPolicy_Repo_not_enforced
    [where ti = ?ti and opts = ?opts and a = "()" and p = p and uni = "(=)" and r = ?r
       and observed = "''https://github.com/evil/repo''", THEN conjunct1, rule_format, OF p]
  have "verifyCertExtensions (=) p ?r = None"
    using built owner issuer by (simp add: verifyCertExtensions_def)
  with built p show ?thesis
    by simp
qed

subsection \<open>The matcher and the host pattern\<close>

inductive_simps matches_NoMatch [simp]: "matches NoMatch w"
inductive_simps matches_EmptyMatch [simp]: "matches EmptyMatch w"
inductive_simps matches_Literal [simp]: "matches (Literal d) w"
inductive_simps matches_CharClass [simp]: "matches (CharClass ranges) w"
inductive_simps matches_AnyCharNotNL [simp]: "matches AnyCharNotNL w"
inductive_simps matches_Concat [simp]: "matches (Concat r1 r2) w"
inductive_simps matches_Alternate [simp]: "matches (Alternate r1 r2) w"
inductive_simps matches_Plus [simp]: "matches (Plus r) w"
inductive_simps matches_Star_Nil [simp]: "matches (Star r) []"

lemma matchesEmpty_iff: "matchesEmpty r \<longleftrightarrow> matches r []"
  by (induction r) auto

lemma matches_Star_Cons_aux:
  "matches q s \<Longrightarrow> q = Star r \<Longrightarrow> s = c # w \<Longrightarrow>
     \<exists>u v. w = u @ v \<and> matches r (c # u) \<and> matches (Star r) v"
proof (induction q s arbitrary: w rule: matches.induct)
  case (mStarMore r' u v)
  then show ?case
    by (cases u) auto
qed auto

lemma matches_Star_Cons:
  "matches (Star r) (c # w) \<longleftrightarrow> (\<exists>u v. w = u @ v \<and> matches r (c # u) \<and> matches (Star r) v)"
proof
  assume "matches (Star r) (c # w)"
  then show "\<exists>u v. w = u @ v \<and> matches r (c # u) \<and> matches (Star r) v"
    by (rule matches_Star_Cons_aux) simp_all
next
  assume "\<exists>u v. w = u @ v \<and> matches r (c # u) \<and> matches (Star r) v"
  then obtain u v where "w = u @ v" "matches r (c # u)" "matches (Star r) v"
    by blast
  then show "matches (Star r) (c # w)"
    using mStarMore [of r "c # u" v] by simp
qed

lemma matches_afterChar: "matches (afterChar c r) w \<longleftrightarrow> matches r (c # w)"
proof (induction r arbitrary: w)
  case (Concat r1 r2)
  then show ?case
    by (auto simp: matchesEmpty_iff Cons_eq_append_conv)
next
  case (Star r)
  then show ?case
    by (simp add: matches_Star_Cons)
next
  case (Plus r)
  then show ?case
    by (auto simp: Cons_eq_append_conv matches_Star_Cons)
qed auto

text \<open>The matcher decides the relation.\<close>

lemma matchWhole_iff: "matchWhole r s \<longleftrightarrow> matches r s"
  by (induction s arbitrary: r) (simp_all add: matchesEmpty_iff matches_afterChar)

lemma matches_Star_CharClass:
  "matches (Star (CharClass ranges)) w \<longleftrightarrow> (\<forall>c\<in>set w. inClass c ranges)"
  by (induction w) (auto simp: matches_Star_Cons)

lemma matches_Star_AnyCharNotNL:
  "matches (Star AnyCharNotNL) w \<longleftrightarrow> CHR 0x0A \<notin> set w"
  by (induction w) (auto simp: matches_Star_Cons)

lemma inClass_hostClass: "inClass c hostClass \<longleftrightarrow> hostChar c"
  by (auto simp: hostClass_def hostChar_def Let_def)

lemma matches_Plus_hostClass:
  "matches (Plus (CharClass hostClass)) w \<longleftrightarrow> w \<noteq> [] \<and> list_all hostChar w"
proof (cases w)
  case Nil
  then show ?thesis by simp
next
  case (Cons c w')
  have "(\<exists>u v. c # w' = u @ v \<and> (\<exists>d. u = [d] \<and> hostChar d) \<and> (\<forall>x\<in>set v. hostChar x))
          \<longleftrightarrow> hostChar c \<and> (\<forall>x\<in>set w'. hostChar x)"
  proof
    assume "\<exists>u v. c # w' = u @ v \<and> (\<exists>d. u = [d] \<and> hostChar d) \<and> (\<forall>x\<in>set v. hostChar x)"
    then show "hostChar c \<and> (\<forall>x\<in>set w'. hostChar x)"
      by auto
  next
    assume "hostChar c \<and> (\<forall>x\<in>set w'. hostChar x)"
    then have "c # w' = [c] @ w' \<and> (\<exists>d. [c] = [d] \<and> hostChar d) \<and> (\<forall>x\<in>set w'. hostChar x)"
      by simp
    then show "\<exists>u v. c # w' = u @ v \<and> (\<exists>d. u = [d] \<and> hostChar d) \<and> (\<forall>x\<in>set v. hostChar x)"
      by blast
  qed
  with Cons show ?thesis
    by (simp add: matches_Star_CharClass inClass_hostClass list_all_iff)
qed

lemma MatchString_hostRegex_iff: "MatchString hostRegex s \<longleftrightarrow> hostShaped s"
  unfolding MatchString_def matchWhole_iff hostRegex_def hostShaped_def
  by (simp only: matches_Concat matches_Plus_hostClass matches_Literal matches_Star_AnyCharNotNL) blast

subsection \<open>The validation of the signer workflow\<close>

text \<open>
  Claim C7. The validation of the signer workflow. The pattern \<^verbatim>\<open>hostRegex\<close> matches
  exactly the host-shaped workflows. For a host-shaped workflow the result is
  \<^verbatim>\<open>^https://<value>\<close>, whatever the host name of the options is. For any other
  workflow the result is \<^verbatim>\<open>^https://<hostname>/<value>\<close> when the host name of the
  options is not empty, and the error \<^verbatim>\<open>unknown host\<close> when it is empty.
\<close>

theorem validateSignerWorkflow_cases:
  "(MatchString hostRegex (o_SignerWorkflow opts) \<longleftrightarrow> hostShaped (o_SignerWorkflow opts)) \<and>
   (hostShaped (o_SignerWorkflow opts) \<longrightarrow>
      validateSignerWorkflow opts = Inr (''^https://'' @ o_SignerWorkflow opts) \<and>
      validateSignerWorkflow (opts\<lparr>o_Hostname := h\<rparr>) = validateSignerWorkflow opts) \<and>
   (\<not> hostShaped (o_SignerWorkflow opts) \<and> o_Hostname opts \<noteq> [] \<longrightarrow>
      validateSignerWorkflow opts =
        Inr (''^https://'' @ o_Hostname opts @ ''/'' @ o_SignerWorkflow opts)) \<and>
   (\<not> hostShaped (o_SignerWorkflow opts) \<and> o_Hostname opts = [] \<longrightarrow>
      validateSignerWorkflow opts = Inl (Error ''unknown host''))"
  by (simp add: validateSignerWorkflow_def MatchString_hostRegex_iff)

text \<open>
  The examples of the specification: a workflow with the host \<^verbatim>\<open>github.com\<close> and no
  host name in the options; a workflow without a host, with and without a host name in
  the options.
\<close>

theorem validateSignerWorkflow_cases_witness:
  "validateSignerWorkflow
     \<lparr>o_SignerRepo = [], o_SignerWorkflow = ''github.com/octo/repo/.github/workflows/ci.yml'',
      o_SAN = [], o_SANRegex = [], o_DenySelfHostedRunner = False, o_Repo = [], o_Tenant = [],
      o_Owner = ''octo'', o_Hostname = [], o_OIDCIssuer = []\<rparr>
     = Inr ''^https://github.com/octo/repo/.github/workflows/ci.yml'' \<and>
   validateSignerWorkflow
     \<lparr>o_SignerRepo = [], o_SignerWorkflow = ''octo/repo/.github/workflows/ci.yml'',
      o_SAN = [], o_SANRegex = [], o_DenySelfHostedRunner = False, o_Repo = [], o_Tenant = [],
      o_Owner = ''octo'', o_Hostname = ''github.com'', o_OIDCIssuer = []\<rparr>
     = Inr ''^https://github.com/octo/repo/.github/workflows/ci.yml'' \<and>
   validateSignerWorkflow
     \<lparr>o_SignerRepo = [], o_SignerWorkflow = ''octo/repo/.github/workflows/ci.yml'',
      o_SAN = [], o_SANRegex = [], o_DenySelfHostedRunner = False, o_Repo = [], o_Tenant = [],
      o_Owner = ''octo'', o_Hostname = [], o_OIDCIssuer = []\<rparr>
     = Inl (Error ''unknown host'')"
proof (intro conjI)
  let ?withHost = "\<lparr>o_SignerRepo = [], o_SignerWorkflow = ''github.com/octo/repo/.github/workflows/ci.yml'',
      o_SAN = [], o_SANRegex = [], o_DenySelfHostedRunner = False, o_Repo = [], o_Tenant = [],
      o_Owner = ''octo'', o_Hostname = [], o_OIDCIssuer = []\<rparr>"
  let ?named = "\<lparr>o_SignerRepo = [], o_SignerWorkflow = ''octo/repo/.github/workflows/ci.yml'',
      o_SAN = [], o_SANRegex = [], o_DenySelfHostedRunner = False, o_Repo = [], o_Tenant = [],
      o_Owner = ''octo'', o_Hostname = ''github.com'', o_OIDCIssuer = []\<rparr>"
  let ?unnamed = "\<lparr>o_SignerRepo = [], o_SignerWorkflow = ''octo/repo/.github/workflows/ci.yml'',
      o_SAN = [], o_SANRegex = [], o_DenySelfHostedRunner = False, o_Repo = [], o_Tenant = [],
      o_Owner = ''octo'', o_Hostname = [], o_OIDCIssuer = []\<rparr>"
  have yes: "MatchString hostRegex ''github.com/octo/repo/.github/workflows/ci.yml''"
    by (simp add: MatchString_def hostRegex_def hostClass_def)
  have no: "\<not> MatchString hostRegex ''octo/repo/.github/workflows/ci.yml''"
    by (simp add: MatchString_def hostRegex_def hostClass_def)
  show "validateSignerWorkflow ?withHost = Inr ''^https://github.com/octo/repo/.github/workflows/ci.yml''"
    using validateSignerWorkflow_cases [where opts = ?withHost and h = "''example.com''"] yes by simp
  show "validateSignerWorkflow ?named = Inr ''^https://github.com/octo/repo/.github/workflows/ci.yml''"
    using validateSignerWorkflow_cases [where opts = ?named and h = "''example.com''"] no by simp
  show "validateSignerWorkflow ?unnamed = Inl (Error ''unknown host'')"
    using validateSignerWorkflow_cases [where opts = ?unnamed and h = "''example.com''"] no by simp
qed

subsection \<open>The predicate type\<close>

text \<open>
  Claim C9. \<^verbatim>\<open>VerifyPredicateType\<close> returns an error exactly when the filter by the
  predicate type of the policy leaves nothing, and the message of that error ends with
  the predicate type (and a newline); otherwise it returns what the filter leaves, and
  no error.
\<close>

theorem VerifyPredicateType_cases:
  "VerifyPredicateType p a =
     (if FilterAttestations (PredicateType p) a = []
      then Inl (Error ([CHR 0xE2, CHR 0x9C, CHR 0x97]
                @ '' No attestations found with predicate type: '' @ PredicateType p @ [CHR 0x0A]))
      else Inr (FilterAttestations (PredicateType p) a))"
  by (simp add: VerifyPredicateType_def Let_def)

text \<open>
  A policy for provenance and two lists: one with an SBOM attestation only, one with a
  provenance attestation after it.
\<close>

theorem VerifyPredicateType_cases_witness:
  "VerifyPredicateType
     \<lparr>Extensions = \<lparr>RunnerEnvironment = ''*'', SANRegex = [], SAN = [], BuildSourceRepoURI = [],
        SignerWorkflow = [], SourceRepositoryOwnerURI = [], SourceRepositoryURI = []\<rparr>,
      PredicateType = ''https://slsa.dev/provenance/v1'', Artifact = (), OIDCIssuer = []\<rparr>
     [\<lparr>att_PredicateType = ''https://spdx.dev/Document/v2.3'', att_Bundle = ''b1''\<rparr>]
   = Inl (Error ([CHR 0xE2, CHR 0x9C, CHR 0x97]
        @ '' No attestations found with predicate type: https://slsa.dev/provenance/v1'' @ [CHR 0x0A])) \<and>
   VerifyPredicateType
     \<lparr>Extensions = \<lparr>RunnerEnvironment = ''*'', SANRegex = [], SAN = [], BuildSourceRepoURI = [],
        SignerWorkflow = [], SourceRepositoryOwnerURI = [], SourceRepositoryURI = []\<rparr>,
      PredicateType = ''https://slsa.dev/provenance/v1'', Artifact = (), OIDCIssuer = []\<rparr>
     [\<lparr>att_PredicateType = ''https://spdx.dev/Document/v2.3'', att_Bundle = ''b1''\<rparr>,
      \<lparr>att_PredicateType = ''https://slsa.dev/provenance/v1'', att_Bundle = ''b2''\<rparr>]
   = Inr [\<lparr>att_PredicateType = ''https://slsa.dev/provenance/v1'', att_Bundle = ''b2''\<rparr>]"
  by (simp add: VerifyPredicateType_cases FilterAttestations_def)

end
